theory Spec2Isabelle
  imports Main "HOL-Library.Word"
begin

section \<open>Remote memory blocks (BlackBone, Process/MemBlock.cpp)\<close>

text \<open>
  A \<open>MemBlock\<close> is a handle to a region of memory in another process. Its methods
  are embedded as functions that take the block and the state of the outside world and
  return the method's result, the updated block and the updated world. The collaborators
  (the native allocator, the process memory accessor, the driver) are not part of the
  file; they are a parameter of every function, and every call made to them is recorded.
\<close>

subsection \<open>Machine types and platform constants\<close>

text \<open>
  \<open>ptr_t\<close> is a 64-bit unsigned integer and \<open>size_t\<close> is taken at its 64-bit width;
  \<open>DWORD\<close> and \<open>NTSTATUS\<close> are 32 bits wide. All arithmetic on them wraps around.
\<close>

type_synonym ptr_t = "64 word"
type_synonym size_t = "64 word"
type_synonym DWORD = "32 word"
type_synonym NTSTATUS = "32 word"

text \<open>
  Modelled from the spec: the status codes, the allocation types and the success test,
  which the source takes by name from the platform headers (ntstatus.h, winnt.h,
  ntdef.h). The spec speaks of success and non-success statuses, of the relocation notice
  (allocated at a non-preferred base) and of commit, decommit and release; the constants
  carry the values of the headers. \<open>NT_SUCCESS\<close> holds of every status that is not
  negative when read as a signed 32-bit value.
\<close>

definition STATUS_SUCCESS :: NTSTATUS where
  "STATUS_SUCCESS = 0"

definition STATUS_IMAGE_NOT_AT_BASE :: NTSTATUS where
  "STATUS_IMAGE_NOT_AT_BASE = 0x40000003"

definition NT_SUCCESS :: "NTSTATUS \<Rightarrow> bool" where
  "NT_SUCCESS st = (0 \<le> sint st)"

definition MEM_COMMIT :: DWORD where
  "MEM_COMMIT = 0x1000"

definition MEM_DECOMMIT :: DWORD where
  "MEM_DECOMMIT = 0x4000"

definition MEM_RELEASE :: DWORD where
  "MEM_RELEASE = 0x8000"

text \<open>
  Modelled from the spec: \<open>Align\<close>, declared in a header that is not among the sources.
  The spec says that the size is rounded up to the allocation granularity before use;
  the rounding is done in \<open>size_t\<close> arithmetic, so it wraps for sizes within one page of
  the top of the range.
\<close>

definition Align :: "size_t \<Rightarrow> size_t \<Rightarrow> size_t" where
  "Align val alignment =
     (if val mod alignment = 0 then val else (val div alignment + 1) * alignment)"

subsection \<open>The collaborators and the world they act on\<close>

text \<open>
  Modelled from the spec: the collaborators (the memory accessor with its native
  allocator, the privileged channel, the protection translation) are declared outside the
  sources. They are not given a behaviour here: they are parameters, and every theorem
  holds for all of them. \<open>ProcessMemory\<close> stands for the accessor bound to one target
  process; of its core the block reads the process id and the DEP mode.
\<close>

record ProcessMemory =
  pid :: DWORD
  DEP :: bool

text \<open>
  One constructor for each collaborator routine that the block calls, with the arguments
  passed: the native allocator (\<open>VirualAllocExT\<close>, whose base address is passed by
  reference), the accessor's \<open>Free\<close> and \<open>Protect\<close> (the flag says whether a place
  for the old protection was passed on), and the driver's \<open>FreeMem\<close> and \<open>ProtectMem\<close>.
\<close>

datatype call =
    VirualAllocExT ProcessMemory ptr_t size_t DWORD DWORD
  | MemoryFree ProcessMemory ptr_t size_t DWORD
  | MemoryProtect ProcessMemory ptr_t size_t DWORD bool
  | DriverFreeMem DWORD ptr_t size_t DWORD
  | DriverProtectMem DWORD ptr_t size_t DWORD

text \<open>
  What a collaborator gives back: the status it returns, the value it leaves in the base
  address passed by reference (read only after \<open>VirualAllocExT\<close>), and the content of
  the thread's last-status slot when it returns.
\<close>

record reply =
  status :: NTSTATUS
  base :: ptr_t
  last_nt :: NTSTATUS

text \<open>
  Modelled from the spec: \<open>LastNtStatus\<close>, declared outside the sources; the spec
  calls it the last-error channel. \<open>LastNtStatus()\<close> reads the slot \<open>last_status\<close>
  and \<open>LastNtStatus(s)\<close> stores \<open>s\<close> there. The world holds this slot and the
  collaborator calls made so far, oldest first.
\<close>

record world =
  calls :: "call list"
  last_status :: NTSTATUS

text \<open>
  The environment is arbitrary: \<open>respond\<close> answers a call in a given world, and
  \<open>CastProtection\<close> is the protection translation (protection flags and DEP mode to
  native flags), which is declared outside the sources.
\<close>

record env =
  CastProtection :: "DWORD \<Rightarrow> bool \<Rightarrow> DWORD"
  respond :: "world \<Rightarrow> call \<Rightarrow> reply"

definition invoke :: "env \<Rightarrow> call \<Rightarrow> world \<Rightarrow> reply \<times> world" where
  "invoke e c w =
     (respond e w c, \<lparr>calls = calls w @ [c], last_status = last_nt (respond e w c)\<rparr>)"

definition is_driver_call :: "call \<Rightarrow> bool" where
  "is_driver_call c =
     (case c of DriverFreeMem _ _ _ _ \<Rightarrow> True | DriverProtectMem _ _ _ _ \<Rightarrow> True | _ \<Rightarrow> False)"

definition is_accessor_call :: "call \<Rightarrow> bool" where
  "is_accessor_call c =
     (case c of MemoryFree _ _ _ _ \<Rightarrow> True | MemoryProtect _ _ _ _ _ \<Rightarrow> True
      | VirualAllocExT _ _ _ _ _ \<Rightarrow> True | _ \<Rightarrow> False)"

subsection \<open>The block\<close>

text \<open>
  The fields \<open>_ptr\<close>, \<open>_size\<close>, \<open>_protection\<close>, \<open>_own\<close>, \<open>_physical\<close> and
  \<open>_memory\<close> of the class. \<open>_memory\<close> is a pointer that may be null.
\<close>

record MemBlock =
  m_ptr :: ptr_t
  m_size :: size_t
  m_protection :: DWORD
  m_own :: bool
  m_physical :: bool
  m_memory :: "ProcessMemory option"

text \<open>A method that dereferences a null \<open>_memory\<close> does not return.\<close>

datatype fault = NullAccessor

text \<open>Modelled from the spec: the validity predicate of the header, address \<open>\<noteq> 0\<close>.\<close>

definition valid :: "MemBlock \<Rightarrow> bool" where
  "valid b = (m_ptr b \<noteq> 0)"

text \<open>
  \<open>MemBlock::Allocate\<close>. The first request is made at \<open>desired\<close>; when its status
  is not \<open>STATUS_SUCCESS\<close> a second one is made at 0. The block is built from the
  address left by the request that succeeded, or from 0, and from the size and the
  protection as they were asked for; it owns the region and is not physical.
\<close>

definition Allocate ::
  "env \<Rightarrow> ProcessMemory \<Rightarrow> size_t \<Rightarrow> ptr_t \<Rightarrow> DWORD \<Rightarrow> world \<Rightarrow> MemBlock \<times> world" where
  "Allocate e process sz desired protection w =
     (let newProt = CastProtection e protection (DEP process);
          (r1, w1) = invoke e (VirualAllocExT process desired sz MEM_COMMIT newProt) w
      in if status r1 \<noteq> STATUS_SUCCESS then
           (let (r2, w2) = invoke e (VirualAllocExT process 0 sz MEM_COMMIT newProt) w1
            in if status r2 = STATUS_SUCCESS then
                 (\<lparr>m_ptr = base r2, m_size = sz, m_protection = protection, m_own = True,
                   m_physical = False, m_memory = Some process\<rparr>,
                  w2\<lparr>last_status := STATUS_IMAGE_NOT_AT_BASE\<rparr>)
               else
                 (\<lparr>m_ptr = 0, m_size = sz, m_protection = protection, m_own = True,
                   m_physical = False, m_memory = Some process\<rparr>, w2))
         else
           (\<lparr>m_ptr = base r1, m_size = sz, m_protection = protection, m_own = True,
             m_physical = False, m_memory = Some process\<rparr>, w1))"

text \<open>
  \<open>MemBlock::Free\<close>. Nothing happens on a block whose address is 0. Otherwise the size
  is aligned to 0x1000 and one call is made: to the driver, always with \<open>MEM_RELEASE\<close>,
  for a physical block, and to the accessor otherwise, with \<open>MEM_RELEASE\<close> for size 0
  and \<open>MEM_DECOMMIT\<close> for any other size. On a status that is not a success the method
  returns the last-status slot and leaves the block as it is.
\<close>

definition Free ::
  "env \<Rightarrow> MemBlock \<Rightarrow> size_t \<Rightarrow> world \<Rightarrow> fault + (NTSTATUS \<times> MemBlock \<times> world)" where
  "Free e b sz w =
     (if m_ptr b \<noteq> 0 then
        (case m_memory b of
           None \<Rightarrow> Inl NullAccessor
         | Some mem \<Rightarrow>
             (let sz' = Align sz 0x1000;
                  (r, w1) =
                    (if m_physical b
                     then invoke e (DriverFreeMem (pid mem) (m_ptr b) sz' MEM_RELEASE) w
                     else invoke e (MemoryFree mem (m_ptr b) sz'
                            (if sz' = 0 then MEM_RELEASE else MEM_DECOMMIT)) w)
              in if \<not> NT_SUCCESS (status r) then Inr (last_status w1, b, w1)
                 else if sz' = 0 then
                   Inr (STATUS_SUCCESS, b\<lparr>m_ptr := 0, m_size := 0, m_protection := 0\<rparr>, w1)
                 else
                   Inr (STATUS_SUCCESS,
                        b\<lparr>m_ptr := m_ptr b + sz', m_size := m_size b - sz'\<rparr>, w1)))
      else Inr (STATUS_SUCCESS, b, w))"

text \<open>
  \<open>MemBlock::Realloc\<close>. The statuses of the two requests are not looked at: the method
  goes by the address that the request leaves behind. With a non-zero address it frees
  the whole block and then takes over the new address, size and protection.
\<close>

definition Realloc ::
  "env \<Rightarrow> MemBlock \<Rightarrow> size_t \<Rightarrow> ptr_t \<Rightarrow> DWORD \<Rightarrow> world \<Rightarrow> fault + (ptr_t \<times> MemBlock \<times> world)" where
  "Realloc e b sz desired protection w =
     (case m_memory b of
        None \<Rightarrow> Inl NullAccessor
      | Some mem \<Rightarrow>
          (let (r1, w1) = invoke e (VirualAllocExT mem desired sz MEM_COMMIT protection) w;
               (desired64, w2) =
                 (if base r1 = 0 then
                    (let (r2, w') = invoke e (VirualAllocExT mem 0 sz MEM_COMMIT protection) w1
                     in (base r2,
                         if base r2 \<noteq> 0 then w'\<lparr>last_status := STATUS_IMAGE_NOT_AT_BASE\<rparr>
                         else w'))
                  else (base r1, w1))
           in if desired64 \<noteq> 0 then
                (case Free e b 0 w2 of
                   Inl f \<Rightarrow> Inl f
                 | Inr (_, b', w3) \<Rightarrow>
                     Inr (desired64,
                          b'\<lparr>m_ptr := desired64, m_size := sz, m_protection := protection\<rparr>,
                          w3))
              else Inr (desired64, b, w2)))"

text \<open>
  \<open>MemBlock::Protect\<close>. Size 0 stands for the size of the block. The call goes to the
  driver for a physical block and to the accessor otherwise; its status is returned.
  No field of the block is assigned.
\<close>

definition Protect ::
  "env \<Rightarrow> MemBlock \<Rightarrow> DWORD \<Rightarrow> size_t \<Rightarrow> size_t \<Rightarrow> bool \<Rightarrow> world
     \<Rightarrow> fault + (NTSTATUS \<times> MemBlock \<times> world)" where
  "Protect e b protection offset sz pOld w =
     (case m_memory b of
        None \<Rightarrow> Inl NullAccessor
      | Some mem \<Rightarrow>
          (let prot = CastProtection e protection (DEP mem);
               sz' = (if sz = 0 then m_size b else sz);
               (r, w1) =
                 (if m_physical b
                  then invoke e (DriverProtectMem (pid mem) (m_ptr b + offset) sz' prot) w
                  else invoke e (MemoryProtect mem (m_ptr b + offset) sz' prot pOld) w)
           in Inr (status r, b, w1)))"

text \<open>
  \<open>MemBlock::Reset\<close>. A full \<open>Free\<close> whose status is dropped, then every field but
  \<open>_physical\<close> is cleared.
\<close>

definition Reset :: "env \<Rightarrow> MemBlock \<Rightarrow> world \<Rightarrow> fault + (MemBlock \<times> world)" where
  "Reset e b w =
     (case Free e b 0 w of
        Inl f \<Rightarrow> Inl f
      | Inr (_, b', w') \<Rightarrow>
          Inr (b'\<lparr>m_ptr := 0, m_size := 0, m_protection := 0, m_own := False,
                 m_memory := None\<rparr>, w'))"

text \<open>
  Repeated calls of \<open>Free\<close> on one block, one for each size of the list, as a caller
  that walks the block forward makes them; the statuses are dropped.
\<close>

fun Free_each :: "env \<Rightarrow> size_t list \<Rightarrow> MemBlock \<Rightarrow> world \<Rightarrow> fault + (MemBlock \<times> world)" where
  "Free_each e [] b w = Inr (b, w)"
| "Free_each e (k # ks) b w =
     (case Free e b k w of
        Inl f \<Rightarrow> Inl f
      | Inr (_, b', w') \<Rightarrow> Free_each e ks b' w')"

subsection \<open>Sample processes, blocks and collaborators\<close>

text \<open>
  Concrete inputs on which the theorems below are instantiated: a target process, a
  world in which nothing has been called yet, a block of two pages held at 0x10000 with
  protection 0x40, and the same block with physical backing.
\<close>

definition target :: ProcessMemory where
  "target = \<lparr>pid = 0x4D2, DEP = True\<rparr>"

definition start :: world where
  "start = \<lparr>calls = [], last_status = 0\<rparr>"

definition held :: MemBlock where
  "held = \<lparr>m_ptr = 0x10000, m_size = 0x2000, m_protection = 0x40, m_own = True,
            m_physical = False, m_memory = Some target\<rparr>"

definition held_physical :: MemBlock where
  "held_physical = held\<lparr>m_physical := True\<rparr>"

text \<open>A protection translation that passes the flags through.\<close>

definition keep :: "DWORD \<Rightarrow> bool \<Rightarrow> DWORD" where
  "keep protection dep = protection"

text \<open>
  Four collaborators. \<open>grant\<close> succeeds on every call and allocates at the base asked
  for, or at 0x20000 when asked for 0. \<open>deny\<close> refuses every call with
  \<open>STATUS_NO_MEMORY\<close>. \<open>relocate\<close> refuses every allocation at a non-zero base with
  \<open>STATUS_CONFLICTING_ADDRESSES\<close> and allocates at 0x20000 when asked for 0.
  \<open>refuse_in_place\<close> refuses every allocation with that status and leaves the base
  that was passed untouched. The last two grant every other call.
\<close>


fun grant :: "world \<Rightarrow> call \<Rightarrow> reply" where
  "grant w (VirualAllocExT p a n t f) =
     \<lparr>status = STATUS_SUCCESS, base = (if a = 0 then 0x20000 else a),
      last_nt = STATUS_SUCCESS\<rparr>"
| "grant w c = \<lparr>status = STATUS_SUCCESS, base = 0, last_nt = STATUS_SUCCESS\<rparr>"

definition deny :: "world \<Rightarrow> call \<Rightarrow> reply" where
  "deny w c = \<lparr>status = 0xC0000017, base = 0, last_nt = 0xC0000017\<rparr>"

fun relocate :: "world \<Rightarrow> call \<Rightarrow> reply" where
  "relocate w (VirualAllocExT p a n t f) =
     (if a = 0 then \<lparr>status = STATUS_SUCCESS, base = 0x20000, last_nt = STATUS_SUCCESS\<rparr>
      else \<lparr>status = 0xC0000018, base = 0, last_nt = 0xC0000018\<rparr>)"
| "relocate w c = grant w c"

fun refuse_in_place :: "world \<Rightarrow> call \<Rightarrow> reply" where
  "refuse_in_place w (VirualAllocExT p a n t f) =
     \<lparr>status = 0xC0000018, base = a, last_nt = 0xC0000018\<rparr>"
| "refuse_in_place w c = grant w c"

definition granting :: env where
  "granting = \<lparr>CastProtection = keep, respond = grant\<rparr>"

definition denying :: env where
  "denying = \<lparr>CastProtection = keep, respond = deny\<rparr>"

definition relocating :: env where
  "relocating = \<lparr>CastProtection = keep, respond = relocate\<rparr>"

definition refusing_in_place :: env where
  "refusing_in_place = \<lparr>CastProtection = keep, respond = refuse_in_place\<rparr>"


section \<open>Properties\<close>

subsection \<open>Auxiliary facts\<close>

lemmas sample_defs =
  target_def start_def held_def held_physical_def keep_def deny_def
  granting_def denying_def relocating_def refusing_in_place_def

lemma Align_0 [simp]: "Align 0 a = 0"
  by (simp add: Align_def)

lemma NT_SUCCESS_STATUS_SUCCESS [simp]: "NT_SUCCESS STATUS_SUCCESS"
  by (simp add: NT_SUCCESS_def STATUS_SUCCESS_def)

text \<open>
  Rounding up to a multiple of 4096 on the natural numbers, and \<open>Align\<close> as that
  rounding for every size that is not within one page of the top of the range.
\<close>

lemma round_up_multiple:
  assumes "(n::nat) mod 4096 = 0"
  shows "(n + 4095) div 4096 * 4096 = n"
proof -
  define q where "q = n div 4096"
  have "n = q * 4096 + n mod 4096"
    by (simp add: q_def)
  with assms have q: "n = q * 4096"
    by simp
  have "(q * 4096 + 4095) div 4096 = q"
    by simp
  with q show ?thesis
    by simp
qed

lemma round_up_other:
  assumes "(n::nat) mod 4096 \<noteq> 0"
  shows "(n + 4095) div 4096 = n div 4096 + 1"
proof -
  define q where "q = n div 4096"
  define r where "r = n mod 4096"
  have n: "n = q * 4096 + r"
    by (simp add: q_def r_def)
  have r: "0 < r" "r < 4096"
    using assms by (simp_all add: r_def)
  have "n + 4095 = (q + 1) * 4096 + (r - 1)"
    using n r by simp
  moreover have "((q + 1) * 4096 + (r - 1)) div 4096 = q + 1"
    using r by simp
  ultimately show ?thesis
    by (simp add: q_def)
qed

lemma Align_unat:
  fixes sz :: size_t
  assumes "unat sz + 4095 < 2 ^ 64"
  shows "unat (Align sz 0x1000) = (unat sz + 4095) div 4096 * 4096"
proof (cases "sz mod 0x1000 = 0")
  case True
  then have "unat (sz mod 0x1000) = 0"
    by simp
  then have "unat sz mod 4096 = 0"
    by (simp add: unat_mod)
  then have "(unat sz + 4095) div 4096 * 4096 = unat sz"
    by (rule round_up_multiple)
  with True show ?thesis
    by (simp add: Align_def)
next
  case False
  then have "unat (sz mod 0x1000) \<noteq> 0"
    by (simp add: unat_eq_zero)
  then have nz: "unat sz mod 4096 \<noteq> 0"
    by (simp add: unat_mod)
  have d: "unat (sz div 0x1000) = unat sz div 4096"
    by (simp add: unat_div)
  have e: "(unat sz + 4095) div 4096 = unat sz div 4096 + 1"
    using nz by (rule round_up_other)
  have "(unat sz + 4095) div 4096 * 4096 \<le> unat sz + 4095"
    by simp
  with e assms have b2: "(unat sz div 4096 + 1) * 4096 < 2 ^ 64"
    by simp
  then have b1: "unat sz div 4096 + 1 < 2 ^ 64"
    by simp
  have s: "unat (sz div 0x1000 + 1) = unat sz div 4096 + 1"
    using d b1 by (simp add: unat_word_ariths)
  have m: "unat ((sz div 0x1000 + 1) * 0x1000) = (unat sz div 4096 + 1) * 4096"
    using s b2 by (simp add: unat_word_ariths)
  with e False show ?thesis
    by (simp add: Align_def)
qed

lemma Align_nonzero:
  fixes sz :: size_t
  assumes "sz \<noteq> 0" and "unat sz + 4095 < 2 ^ 64"
  shows "Align sz 0x1000 \<noteq> 0"
proof -
  have "0 < unat sz"
    using assms(1) by (simp add: unat_gt_0)
  then have "4096 \<le> unat sz + 4095"
    by simp
  then have "1 \<le> (unat sz + 4095) div 4096"
    by simp
  then have "unat (Align sz 0x1000) \<noteq> 0"
    using Align_unat [OF assms(2)] by simp
  then show ?thesis
    by (auto simp: unat_eq_zero)
qed

text \<open>On a block whose address is 0, \<open>Free\<close> calls nobody and changes nothing.\<close>

lemma Free_at_zero: "m_ptr b = 0 \<Longrightarrow> Free e b sz w = Inr (STATUS_SUCCESS, b, w)"
  by (simp add: Free_def)

text \<open>A full free that the collaborator grants clears address, size and protection.\<close>

lemma Free_full_granted:
  assumes "Free e b 0 w = Inr (st, b', w')"
    and "calls w' = calls w @ [c]"
    and "NT_SUCCESS (status (respond e w c))"
  shows "st = STATUS_SUCCESS \<and> b' = b\<lparr>m_ptr := 0, m_size := 0, m_protection := 0\<rparr>"
  using assms
  by (auto simp: Free_def invoke_def Let_def split: if_splits option.splits)

text \<open>
  A free of a size that does not round to 0, granted by the collaborator, moves the
  address forward and takes the rounded size off the size; the arithmetic is that of the
  machine. Granted or not, it leaves the protection field alone.
\<close>

lemma Free_partial_granted:
  assumes "Free e b k w = Inr (st, b', w')"
    and "calls w' = calls w @ [c]"
    and "NT_SUCCESS (status (respond e w c))"
    and "Align k 0x1000 \<noteq> 0"
  shows "st = STATUS_SUCCESS
     \<and> b' = b\<lparr>m_ptr := m_ptr b + Align k 0x1000, m_size := m_size b - Align k 0x1000\<rparr>"
  using assms
  by (auto simp: Free_def invoke_def Let_def split: if_splits option.splits)

lemma Free_partial_protection:
  assumes "Free e b k w = Inr (st, b', w')" and "Align k 0x1000 \<noteq> 0"
  shows "m_protection b' = m_protection b"
  using assms
  by (auto simp: Free_def invoke_def Let_def split: if_splits option.splits)

lemma Free_each_protection:
  assumes "\<forall>k \<in> set ks. Align k 0x1000 \<noteq> 0"
    and "Free_each e ks b w = Inr (b', w')"
  shows "m_protection b' = m_protection b"
  using assms
proof (induction ks arbitrary: b w)
  case Nil
  then show ?case
    by simp
next
  case (Cons k ks)
  from Cons.prems(2) obtain st b1 w1
    where f: "Free e b k w = Inr (st, b1, w1)" and r: "Free_each e ks b1 w1 = Inr (b', w')"
    by (auto split: sum.splits)
  from Cons.prems(1) have k: "Align k 0x1000 \<noteq> 0" and ks: "\<forall>k \<in> set ks. Align k 0x1000 \<noteq> 0"
    by simp_all
  from Cons.IH [OF ks r] Free_partial_protection [OF f k] show ?case
    by simp
qed

text \<open>
  A window that lies within the address space stays clear of address 0 and of size 0
  when less than its size is taken off its front.
\<close>

lemma window_stays_inside:
  fixes p a s :: "64 word"
  assumes "p \<noteq> 0" and "a < s" and "unat p + unat s \<le> 2 ^ 64"
  shows "p + a \<noteq> 0 \<and> s - a \<noteq> 0 \<and> unat (p + a) = unat p + unat a
     \<and> unat (s - a) = unat s - unat a"
proof -
  have lt: "unat a < unat s"
    using assms(2) by (simp add: word_less_nat_alt)
  have pos: "0 < unat p"
    using assms(1) by (simp add: unat_gt_0)
  from lt assms(3) have "unat p + unat a < 2 ^ 64"
    by simp
  then have add: "unat (p + a) = unat p + unat a"
    by (simp add: unat_add_lem [THEN iffD1])
  have sub: "unat (s - a) = unat s - unat a"
    using assms(2) by (simp add: unat_sub word_le_nat_alt word_less_nat_alt)
  from add pos have "unat (p + a) \<noteq> 0"
    by simp
  moreover from sub lt have "unat (s - a) \<noteq> 0"
    by simp
  ultimately show ?thesis
    using add sub by (auto simp: unat_eq_zero)
qed

text \<open>\<open>Free\<close> returns unless it has to dereference a null accessor.\<close>

lemma Free_returns:
  assumes "m_ptr b = 0 \<or> m_memory b = Some mem"
  shows "\<exists>st b' w'. Free e b sz w = Inr (st, b', w')"
  using assms
  by (auto simp: Free_def invoke_def Let_def split: if_splits option.splits)

text \<open>Whatever the collaborators answer, the block that \<open>Reset\<close> leaves is the same.\<close>

lemma Reset_cleared:
  assumes "Reset e b w = Inr (b', w')"
  shows "b' = \<lparr>m_ptr = 0, m_size = 0, m_protection = 0, m_own = False,
               m_physical = m_physical b, m_memory = None\<rparr>"
  using assms
  by (auto simp: Reset_def Free_def invoke_def Let_def split: if_splits option.splits sum.splits)

text \<open>
  The block built by \<open>Allocate\<close> carries the size and the protection of the request,
  owns its region and is virtual, whether the allocation succeeded or not.
\<close>

lemma Allocate_fields:
  "m_size (fst (Allocate e process sz desired protection w)) = sz
   \<and> m_protection (fst (Allocate e process sz desired protection w)) = protection
   \<and> m_own (fst (Allocate e process sz desired protection w))
   \<and> \<not> m_physical (fst (Allocate e process sz desired protection w))"
  by (simp add: Allocate_def Let_def split_def)

text \<open>
  \<open>Realloc\<close> goes by the base address that the requests leave behind. When both leave
  0, the block is untouched and 0 is returned. When the first leaves an address, the old
  region is freed in full first and the block is then bound to that address, the new size
  and the new protection.
\<close>

lemma Realloc_untouched:
  assumes "m_memory b = Some mem"
    and "invoke e (VirualAllocExT mem desired sz MEM_COMMIT protection) w = (r1, w1)"
    and "invoke e (VirualAllocExT mem 0 sz MEM_COMMIT protection) w1 = (r2, w2)"
    and "base r1 = 0" and "base r2 = 0"
  shows "Realloc e b sz desired protection w = Inr (0, b, w2)"
  using assms by (simp add: Realloc_def Let_def)

lemma Realloc_rebinds:
  assumes "m_memory b = Some mem"
    and "invoke e (VirualAllocExT mem desired sz MEM_COMMIT protection) w = (r1, w1)"
    and "base r1 \<noteq> 0"
    and "Free e b 0 w1 = Inr (st, b', w')"
  shows "Realloc e b sz desired protection w =
           Inr (base r1, b'\<lparr>m_ptr := base r1, m_size := sz, m_protection := protection\<rparr>, w')"
  using assms by (simp add: Realloc_def Let_def)

subsection \<open>C1: the empty state\<close>

text \<open>
  C1 says that a block that reaches address 0 through a failed \<open>Allocate\<close>, a full
  \<open>Free\<close> or \<open>Reset\<close> has size 0 and protection 0. This holds for the full \<open>Free\<close>
  of a block that held memory and for \<open>Reset\<close>. It does not hold for \<open>Allocate\<close>:
  the block it returns always carries the size and the protection that were asked for,
  also when both requests were refused and its address is 0.
\<close>

theorem C1_empty_state_amended:
  "(m_ptr b \<noteq> 0 \<and> Free e b 0 w = Inr (st, b1, w1) \<and> m_ptr b1 = 0
      \<longrightarrow> m_size b1 = 0 \<and> m_protection b1 = 0)
   \<and> (Reset e b w = Inr (b2, w2) \<longrightarrow> m_ptr b2 = 0 \<and> m_size b2 = 0 \<and> m_protection b2 = 0)
   \<and> m_size (fst (Allocate e process sz desired protection w)) = sz
   \<and> m_protection (fst (Allocate e process sz desired protection w)) = protection"
proof (intro conjI impI)
  assume "m_ptr b \<noteq> 0 \<and> Free e b 0 w = Inr (st, b1, w1) \<and> m_ptr b1 = 0"
  then show "m_size b1 = 0" "m_protection b1 = 0"
    by (auto simp: Free_def invoke_def Let_def split: if_splits option.splits)
next
  assume "Reset e b w = Inr (b2, w2)"
  then have "b2 = \<lparr>m_ptr = 0, m_size = 0, m_protection = 0, m_own = False,
               m_physical = m_physical b, m_memory = None\<rparr>"
    by (rule Reset_cleared)
  then show "m_ptr b2 = 0" "m_size b2 = 0" "m_protection b2 = 0"
    by simp_all
qed (simp_all add: Allocate_fields)

text \<open>
  C1, instance: the sample block is fully freed, and is reset, with collaborators that
  grant the release.
\<close>

theorem C1_witness:
  "m_ptr held \<noteq> 0
   \<and> Free granting held 0 start =
       Inr (STATUS_SUCCESS, held\<lparr>m_ptr := 0, m_size := 0, m_protection := 0\<rparr>,
            \<lparr>calls = [MemoryFree target 0x10000 0 MEM_RELEASE], last_status = STATUS_SUCCESS\<rparr>)
   \<and> m_size (held\<lparr>m_ptr := 0, m_size := 0, m_protection := 0\<rparr>) = 0
   \<and> m_protection (held\<lparr>m_ptr := 0, m_size := 0, m_protection := 0\<rparr>) = 0
   \<and> Reset granting held start =
       Inr (\<lparr>m_ptr = 0, m_size = 0, m_protection = 0, m_own = False, m_physical = False,
             m_memory = None\<rparr>,
            \<lparr>calls = [MemoryFree target 0x10000 0 MEM_RELEASE], last_status = STATUS_SUCCESS\<rparr>)"
proof -
  let ?b1 = "held\<lparr>m_ptr := 0, m_size := 0, m_protection := 0\<rparr>"
  let ?w1 = "\<lparr>calls = [MemoryFree target 0x10000 0 MEM_RELEASE], last_status = STATUS_SUCCESS\<rparr>"
  let ?b2 = "\<lparr>m_ptr = 0, m_size = 0, m_protection = 0, m_own = False, m_physical = False,
             m_memory = None\<rparr>"
  have p: "m_ptr held \<noteq> 0"
    by (simp add: held_def)
  have f: "Free granting held 0 start = Inr (STATUS_SUCCESS, ?b1, ?w1)"
    by (simp add: Free_def invoke_def Let_def sample_defs)
  have z: "m_ptr ?b1 = 0"
    by simp
  have r: "Reset granting held start = Inr (?b2, ?w1)"
    by (simp add: Reset_def Free_def invoke_def Let_def sample_defs)
  from C1_empty_state_amended
         [where b = held and e = granting and w = start and st = STATUS_SUCCESS
            and ?b1.0 = ?b1 and ?w1.0 = ?w1 and ?b2.0 = ?b2 and ?w2.0 = ?w1]
    p f z r
  show ?thesis
    by simp
qed

text \<open>
  C1 fails for a failed allocation: one page is asked for at 0x20000 with protection
  0x40 and both requests are refused. The block returned has address 0, size 0x1000 and
  protection 0x40.
\<close>

theorem C1_counterexample:
  "Allocate denying target 0x1000 0x20000 0x40 start =
     (\<lparr>m_ptr = 0, m_size = 0x1000, m_protection = 0x40, m_own = True, m_physical = False,
       m_memory = Some target\<rparr>,
      \<lparr>calls = [VirualAllocExT target 0x20000 0x1000 MEM_COMMIT 0x40,
                 VirualAllocExT target 0 0x1000 MEM_COMMIT 0x40],
       last_status = 0xC0000017\<rparr>)
   \<and> m_ptr (fst (Allocate denying target 0x1000 0x20000 0x40 start)) = 0
   \<and> m_size (fst (Allocate denying target 0x1000 0x20000 0x40 start)) \<noteq> 0
   \<and> m_protection (fst (Allocate denying target 0x1000 0x20000 0x40 start)) \<noteq> 0"
  by (simp add: Allocate_def invoke_def Let_def sample_defs STATUS_SUCCESS_def)

subsection \<open>C2: the fallback of Allocate\<close>

text \<open>
  C2 says that, when the request at the desired address is refused and the request at
  address 0 succeeds, \<open>Allocate\<close> retries exactly once, returns a valid owning block at
  the address chosen by the system, which differs from the desired one, and records the
  relocation notice. What holds for every collaborator: exactly the two requests are
  made, the block owns its region, is virtual and sits at the base that the second
  request left behind, the last-status slot holds \<open>STATUS_IMAGE_NOT_AT_BASE\<close>, and the
  block is valid exactly when that base is not 0. Nothing in \<open>Allocate\<close> compares this
  base with the desired address.
\<close>

theorem C2_fallback_amended:
  assumes "invoke e (VirualAllocExT process desired sz MEM_COMMIT
             (CastProtection e protection (DEP process))) w = (r1, w1)"
    and "invoke e (VirualAllocExT process 0 sz MEM_COMMIT
             (CastProtection e protection (DEP process))) w1 = (r2, w2)"
    and "status r1 \<noteq> STATUS_SUCCESS"
    and "status r2 = STATUS_SUCCESS"
  shows "Allocate e process sz desired protection w =
           (\<lparr>m_ptr = base r2, m_size = sz, m_protection = protection, m_own = True,
             m_physical = False, m_memory = Some process\<rparr>,
            w2\<lparr>last_status := STATUS_IMAGE_NOT_AT_BASE\<rparr>)
     \<and> calls (snd (Allocate e process sz desired protection w)) =
         calls w @ [VirualAllocExT process desired sz MEM_COMMIT
                      (CastProtection e protection (DEP process)),
                    VirualAllocExT process 0 sz MEM_COMMIT
                      (CastProtection e protection (DEP process))]
     \<and> last_status (snd (Allocate e process sz desired protection w)) = STATUS_IMAGE_NOT_AT_BASE
     \<and> valid (fst (Allocate e process sz desired protection w)) = (base r2 \<noteq> 0)"
proof -
  have eq: "Allocate e process sz desired protection w =
           (\<lparr>m_ptr = base r2, m_size = sz, m_protection = protection, m_own = True,
             m_physical = False, m_memory = Some process\<rparr>,
            w2\<lparr>last_status := STATUS_IMAGE_NOT_AT_BASE\<rparr>)"
    using assms by (simp add: Allocate_def Let_def)
  from assms(1) have "calls w1 = calls w @ [VirualAllocExT process desired sz MEM_COMMIT
                      (CastProtection e protection (DEP process))]"
    by (auto simp: invoke_def)
  moreover from assms(2) have "calls w2 = calls w1 @ [VirualAllocExT process 0 sz MEM_COMMIT
                      (CastProtection e protection (DEP process))]"
    by (auto simp: invoke_def)
  ultimately show ?thesis
    by (simp add: eq valid_def)
qed

text \<open>
  C2, instance: two pages are asked for at 0x1000; the request is refused there and
  granted at 0x20000.
\<close>

theorem C2_witness:
  "Allocate relocating target 0x2000 0x1000 0x40 start =
     (\<lparr>m_ptr = 0x20000, m_size = 0x2000, m_protection = 0x40, m_own = True,
       m_physical = False, m_memory = Some target\<rparr>,
      \<lparr>calls = [VirualAllocExT target 0x1000 0x2000 MEM_COMMIT 0x40,
                 VirualAllocExT target 0 0x2000 MEM_COMMIT 0x40],
       last_status = STATUS_IMAGE_NOT_AT_BASE\<rparr>)
   \<and> status (respond relocating start (VirualAllocExT target 0x1000 0x2000 MEM_COMMIT 0x40))
       \<noteq> STATUS_SUCCESS
   \<and> valid (fst (Allocate relocating target 0x2000 0x1000 0x40 start))"
proof -
  let ?c1 = "VirualAllocExT target 0x1000 0x2000 MEM_COMMIT 0x40"
  let ?c2 = "VirualAllocExT target 0 0x2000 MEM_COMMIT 0x40"
  let ?r1 = "\<lparr>status = 0xC0000018, base = 0, last_nt = 0xC0000018\<rparr>"
  let ?r2 = "\<lparr>status = STATUS_SUCCESS, base = 0x20000, last_nt = STATUS_SUCCESS\<rparr>"
  let ?w1 = "\<lparr>calls = [?c1], last_status = 0xC0000018\<rparr>"
  let ?w2 = "\<lparr>calls = [?c1, ?c2], last_status = STATUS_SUCCESS\<rparr>"
  have i1: "invoke relocating (VirualAllocExT target 0x1000 0x2000 MEM_COMMIT
              (CastProtection relocating 0x40 (DEP target))) start = (?r1, ?w1)"
    by (simp add: keep_def invoke_def relocating_def start_def)
  have i2: "invoke relocating (VirualAllocExT target 0 0x2000 MEM_COMMIT
              (CastProtection relocating 0x40 (DEP target))) ?w1 = (?r2, ?w2)"
    by (simp add: keep_def invoke_def relocating_def)
  have s1: "status ?r1 \<noteq> STATUS_SUCCESS"
    by (simp add: STATUS_SUCCESS_def)
  have s2: "status ?r2 = STATUS_SUCCESS"
    by simp
  from C2_fallback_amended [OF i1 i2 s1 s2] show ?thesis
    by (simp add: relocating_def keep_def STATUS_SUCCESS_def valid_def)
qed

text \<open>
  C2 fails when the system, left to choose, picks the very address that it refused
  before: one page is asked for at 0x20000, the request there is refused, the request at
  0 is granted at 0x20000. The block sits at the desired address.
\<close>

theorem C2_counterexample:
  "(0x20000 :: ptr_t) \<noteq> 0
   \<and> status (respond relocating start (VirualAllocExT target 0x20000 0x1000 MEM_COMMIT 0x40))
       \<noteq> STATUS_SUCCESS
   \<and> Allocate relocating target 0x1000 0x20000 0x40 start =
       (\<lparr>m_ptr = 0x20000, m_size = 0x1000, m_protection = 0x40, m_own = True,
         m_physical = False, m_memory = Some target\<rparr>,
        \<lparr>calls = [VirualAllocExT target 0x20000 0x1000 MEM_COMMIT 0x40,
                   VirualAllocExT target 0 0x1000 MEM_COMMIT 0x40],
         last_status = STATUS_IMAGE_NOT_AT_BASE\<rparr>)
   \<and> m_ptr (fst (Allocate relocating target 0x1000 0x20000 0x40 start)) = 0x20000"
  by (simp add: Allocate_def invoke_def Let_def sample_defs STATUS_SUCCESS_def)

subsection \<open>C3: the shrinking window\<close>

text \<open>
  C3 says that \<open>Free(k)\<close>, for \<open>k\<close> that rounds to less than the size, moves the
  address forward by the rounded \<open>k\<close>, takes it off the size and leaves the block
  non-empty, and that repeating such calls until no size remains leaves the empty state.
  The first part holds when the collaborator grants the call and the region lies within
  the address space. The second does not: a free of a size that does not round to 0
  never clears a field. When it uses up the size, the size is 0, the address is the old
  address plus the old size, and the protection is what it was. No sequence of frees of
  sizes that do not round to 0 changes the protection, so a block whose protection is
  not 0 is not in the empty state after such a sequence.
\<close>

theorem C3_shrinking_window_amended:
  "(Free e b k w = Inr (st, b', w') \<and> calls w' = calls w @ [c]
      \<and> NT_SUCCESS (status (respond e w c)) \<and> Align k 0x1000 \<noteq> 0
    \<longrightarrow> st = STATUS_SUCCESS
        \<and> b' = b\<lparr>m_ptr := m_ptr b + Align k 0x1000, m_size := m_size b - Align k 0x1000\<rparr>
        \<and> (Align k 0x1000 < m_size b \<and> unat (m_ptr b) + unat (m_size b) \<le> 2 ^ 64
            \<longrightarrow> m_ptr b' \<noteq> 0 \<and> m_size b' \<noteq> 0
                \<and> unat (m_ptr b') = unat (m_ptr b) + unat (Align k 0x1000)
                \<and> unat (m_size b') = unat (m_size b) - unat (Align k 0x1000))
        \<and> (Align k 0x1000 = m_size b
            \<longrightarrow> m_size b' = 0 \<and> m_ptr b' = m_ptr b + m_size b
                \<and> m_protection b' = m_protection b))
   \<and> ((\<forall>j \<in> set ks. Align j 0x1000 \<noteq> 0) \<and> Free_each e ks b w = Inr (b'', w'')
      \<longrightarrow> m_protection b'' = m_protection b
          \<and> (m_protection b \<noteq> 0
              \<longrightarrow> \<not> (m_ptr b'' = 0 \<and> m_size b'' = 0 \<and> m_protection b'' = 0)))"
proof (intro conjI impI)
  assume a: "Free e b k w = Inr (st, b', w') \<and> calls w' = calls w @ [c]
      \<and> NT_SUCCESS (status (respond e w c)) \<and> Align k 0x1000 \<noteq> 0"
  then have g: "st = STATUS_SUCCESS
     \<and> b' = b\<lparr>m_ptr := m_ptr b + Align k 0x1000, m_size := m_size b - Align k 0x1000\<rparr>"
    using Free_partial_granted by blast
  then show "st = STATUS_SUCCESS"
    and "b' = b\<lparr>m_ptr := m_ptr b + Align k 0x1000, m_size := m_size b - Align k 0x1000\<rparr>"
    by simp_all
  from a have nz: "m_ptr b \<noteq> 0"
    by (auto simp: Free_def split: if_splits)
  {
    assume i: "Align k 0x1000 < m_size b \<and> unat (m_ptr b) + unat (m_size b) \<le> 2 ^ 64"
    then have "Align k 0x1000 < m_size b" and "unat (m_ptr b) + unat (m_size b) \<le> 2 ^ 64"
      by simp_all
    from window_stays_inside [OF nz this] g
    show "m_ptr b' \<noteq> 0" and "m_size b' \<noteq> 0"
      and "unat (m_ptr b') = unat (m_ptr b) + unat (Align k 0x1000)"
      and "unat (m_size b') = unat (m_size b) - unat (Align k 0x1000)"
      by simp_all
  }
  {
    assume "Align k 0x1000 = m_size b"
    with g show "m_size b' = 0" and "m_ptr b' = m_ptr b + m_size b"
      and "m_protection b' = m_protection b"
      by simp_all
  }
next
  assume "(\<forall>j \<in> set ks. Align j 0x1000 \<noteq> 0) \<and> Free_each e ks b w = Inr (b'', w'')"
  then show p: "m_protection b'' = m_protection b"
    using Free_each_protection by blast
  {
    assume "m_protection b \<noteq> 0"
    with p show "\<not> (m_ptr b'' = 0 \<and> m_size b'' = 0 \<and> m_protection b'' = 0)"
      by simp
  }
qed

text \<open>
  C3, instance: one byte of the sample block is freed, which rounds to a page; then
  the remaining page.
\<close>

theorem C3_witness:
  "Free granting held 1 start =
     Inr (STATUS_SUCCESS, held\<lparr>m_ptr := 0x11000, m_size := 0x1000\<rparr>,
          \<lparr>calls = [MemoryFree target 0x10000 0x1000 MEM_DECOMMIT],
           last_status = STATUS_SUCCESS\<rparr>)
   \<and> NT_SUCCESS (status (respond granting start (MemoryFree target 0x10000 0x1000 MEM_DECOMMIT)))
   \<and> Align 1 0x1000 = 0x1000
   \<and> Align 1 0x1000 < m_size held
   \<and> unat (m_ptr held) + unat (m_size held) \<le> 2 ^ 64
   \<and> m_ptr (held\<lparr>m_ptr := 0x11000, m_size := 0x1000\<rparr>) \<noteq> 0
   \<and> m_size (held\<lparr>m_ptr := 0x11000, m_size := 0x1000\<rparr>) \<noteq> 0
   \<and> Free_each granting [1, 0x1000] held start =
       Inr (\<lparr>m_ptr = 0x12000, m_size = 0, m_protection = 0x40, m_own = True,
             m_physical = False, m_memory = Some target\<rparr>,
            \<lparr>calls = [MemoryFree target 0x10000 0x1000 MEM_DECOMMIT,
                       MemoryFree target 0x11000 0x1000 MEM_DECOMMIT],
             last_status = STATUS_SUCCESS\<rparr>)
   \<and> m_protection held = 0x40
   \<and> m_protection held \<noteq> 0
   \<and> \<not> (m_ptr \<lparr>m_ptr = 0x12000, m_size = 0, m_protection = 0x40, m_own = True,
                 m_physical = False, m_memory = Some target\<rparr> = 0
        \<and> m_size \<lparr>m_ptr = 0x12000, m_size = 0, m_protection = 0x40, m_own = True,
                    m_physical = False, m_memory = Some target\<rparr> = 0
        \<and> m_protection \<lparr>m_ptr = 0x12000, m_size = 0, m_protection = 0x40, m_own = True,
                          m_physical = False, m_memory = Some target\<rparr> = 0)"
proof -
  let ?c = "MemoryFree target 0x10000 0x1000 MEM_DECOMMIT"
  let ?b1 = "held\<lparr>m_ptr := 0x11000, m_size := 0x1000\<rparr>"
  let ?w1 = "\<lparr>calls = [?c], last_status = STATUS_SUCCESS\<rparr>"
  let ?b2 = "\<lparr>m_ptr = 0x12000, m_size = 0, m_protection = 0x40, m_own = True,
             m_physical = False, m_memory = Some target\<rparr>"
  let ?w2 = "\<lparr>calls = [?c, MemoryFree target 0x11000 0x1000 MEM_DECOMMIT],
             last_status = STATUS_SUCCESS\<rparr>"
  have a: "Align 1 0x1000 = 0x1000" "Align 0x1000 0x1000 = 0x1000"
    by (simp_all add: Align_def)
  have f: "Free granting held 1 start = Inr (STATUS_SUCCESS, ?b1, ?w1)"
    by (simp add: Free_def invoke_def Let_def a sample_defs MEM_DECOMMIT_def MEM_RELEASE_def)
  have c: "calls ?w1 = calls start @ [?c]"
    by (simp add: start_def)
  have n: "NT_SUCCESS (status (respond granting start ?c))"
    by (simp add: granting_def)
  have i: "Align 1 0x1000 < m_size held" "unat (m_ptr held) + unat (m_size held) \<le> 2 ^ 64"
    by (simp_all add: a held_def)
  have ks: "\<forall>j \<in> set [1, 0x1000]. Align j 0x1000 \<noteq> 0"
    by (simp add: a)
  have r: "Free_each granting [1, 0x1000] held start = Inr (?b2, ?w2)"
    by (simp add: Free_def invoke_def Let_def a sample_defs MEM_DECOMMIT_def MEM_RELEASE_def)
  have q: "m_protection held \<noteq> 0"
    by (simp add: held_def)
  from C3_shrinking_window_amended
         [where e = granting and b = held and k = 1 and w = start and st = STATUS_SUCCESS
            and b' = ?b1 and w' = ?w1 and c = ?c and ks = "[1, 0x1000]" and b'' = ?b2
            and w'' = ?w2]
    f c n a i ks r q
  show ?thesis
    by (simp add: held_def)
qed

text \<open>
  C3 fails at the end of the walk: the two pages of the sample block are freed one after
  the other. No size remains, but the address is 0x12000 and the protection 0x40.
\<close>

theorem C3_counterexample:
  "Free_each granting [0x1000, 0x1000] held start =
     Inr (\<lparr>m_ptr = 0x12000, m_size = 0, m_protection = 0x40, m_own = True,
           m_physical = False, m_memory = Some target\<rparr>,
          \<lparr>calls = [MemoryFree target 0x10000 0x1000 MEM_DECOMMIT,
                     MemoryFree target 0x11000 0x1000 MEM_DECOMMIT],
           last_status = STATUS_SUCCESS\<rparr>)
   \<and> m_size held = 0x2000"
  by (simp add: Free_def invoke_def Let_def Align_def sample_defs MEM_DECOMMIT_def MEM_RELEASE_def)

subsection \<open>C4: decommit and release\<close>

text \<open>
  C4 says that, for either backing, \<open>Free\<close> with a size above 0 asks for a decommit of
  the leading rounded size and \<open>Free(0)\<close> for a release of the region. For a virtual
  block this holds: size 0 gives \<open>MemoryFree\<close> with size 0 and \<open>MEM_RELEASE\<close>, and
  every other size whose rounding does not wrap gives \<open>MemoryFree\<close> with the size
  rounded up to a multiple of 4096 and \<open>MEM_DECOMMIT\<close>.
\<close>

theorem C4_virtual_free_modes_amended:
  assumes "m_ptr b \<noteq> 0" and "m_memory b = Some mem" and "\<not> m_physical b"
  shows "(\<exists>st b' w'. Free e b 0 w = Inr (st, b', w')
            \<and> calls w' = calls w @ [MemoryFree mem (m_ptr b) 0 MEM_RELEASE])
     \<and> (sz \<noteq> 0 \<and> unat sz + 4095 < 2 ^ 64
        \<longrightarrow> (\<exists>st b' w'. Free e b sz w = Inr (st, b', w')
               \<and> calls w' = calls w @ [MemoryFree mem (m_ptr b) (Align sz 0x1000) MEM_DECOMMIT])
            \<and> unat (Align sz 0x1000) = (unat sz + 4095) div 4096 * 4096)
     \<and> MEM_DECOMMIT \<noteq> MEM_RELEASE"
proof (intro conjI impI)
  show "\<exists>st b' w'. Free e b 0 w = Inr (st, b', w')
            \<and> calls w' = calls w @ [MemoryFree mem (m_ptr b) 0 MEM_RELEASE]"
    using assms by (simp add: Free_def invoke_def Let_def)
next
  assume a: "sz \<noteq> 0 \<and> unat sz + 4095 < 2 ^ 64"
  then have "Align sz 0x1000 \<noteq> 0"
    by (simp add: Align_nonzero)
  then show "\<exists>st b' w'. Free e b sz w = Inr (st, b', w')
               \<and> calls w' = calls w @ [MemoryFree mem (m_ptr b) (Align sz 0x1000) MEM_DECOMMIT]"
    using assms by (simp add: Free_def invoke_def Let_def)
  from a show "unat (Align sz 0x1000) = (unat sz + 4095) div 4096 * 4096"
    by (simp add: Align_unat)
next
  show "MEM_DECOMMIT \<noteq> MEM_RELEASE"
    by (simp add: MEM_DECOMMIT_def MEM_RELEASE_def)
qed

text \<open>
  C4, instance: the sample block is freed in full, and freed by 0x1001 bytes, which
  round to two pages.
\<close>

theorem C4_witness:
  "m_ptr held \<noteq> 0 \<and> m_memory held = Some target \<and> \<not> m_physical held
   \<and> Free granting held 0 start =
       Inr (STATUS_SUCCESS, held\<lparr>m_ptr := 0, m_size := 0, m_protection := 0\<rparr>,
            \<lparr>calls = [MemoryFree target 0x10000 0 MEM_RELEASE], last_status = STATUS_SUCCESS\<rparr>)
   \<and> (0x1001 :: size_t) \<noteq> 0 \<and> unat (0x1001 :: size_t) + 4095 < 2 ^ 64
   \<and> Free granting held 0x1001 start =
       Inr (STATUS_SUCCESS, held\<lparr>m_ptr := 0x12000, m_size := 0\<rparr>,
            \<lparr>calls = [MemoryFree target 0x10000 0x2000 MEM_DECOMMIT],
             last_status = STATUS_SUCCESS\<rparr>)
   \<and> unat (Align 0x1001 0x1000) = 0x2000"
proof -
  have h: "m_ptr held \<noteq> 0" "m_memory held = Some target" "\<not> m_physical held"
    by (simp_all add: held_def)
  have s: "(0x1001 :: size_t) \<noteq> 0 \<and> unat (0x1001 :: size_t) + 4095 < 2 ^ 64"
    by simp
  have a: "Align 0x1001 0x1000 = 0x2000"
    by (simp add: Align_def)
  have f0: "Free granting held 0 start =
       Inr (STATUS_SUCCESS, held\<lparr>m_ptr := 0, m_size := 0, m_protection := 0\<rparr>,
            \<lparr>calls = [MemoryFree target 0x10000 0 MEM_RELEASE], last_status = STATUS_SUCCESS\<rparr>)"
    by (simp add: Free_def invoke_def Let_def sample_defs)
  have f1: "Free granting held 0x1001 start =
       Inr (STATUS_SUCCESS, held\<lparr>m_ptr := 0x12000, m_size := 0\<rparr>,
            \<lparr>calls = [MemoryFree target 0x10000 0x2000 MEM_DECOMMIT],
             last_status = STATUS_SUCCESS\<rparr>)"
    by (simp add: Free_def invoke_def Let_def a sample_defs MEM_DECOMMIT_def MEM_RELEASE_def)
  from C4_virtual_free_modes_amended [OF h, where sz = "0x1001" and e = granting and w = start]
    s h f0 f1
  show ?thesis
    by (simp add: a)
qed

text \<open>
  C4 fails for a physical block: the first page of the physical sample block is freed
  and the driver is called with \<open>MEM_RELEASE\<close>.
\<close>

theorem C4_counterexample:
  "m_physical held_physical \<and> m_ptr held_physical \<noteq> 0
   \<and> Free granting held_physical 0x1000 start =
       Inr (STATUS_SUCCESS, held_physical\<lparr>m_ptr := 0x11000, m_size := 0x1000\<rparr>,
            \<lparr>calls = [DriverFreeMem 0x4D2 0x10000 0x1000 MEM_RELEASE],
             last_status = STATUS_SUCCESS\<rparr>)
   \<and> MEM_RELEASE \<noteq> MEM_DECOMMIT"
  by (simp add: Free_def invoke_def Let_def Align_def sample_defs MEM_DECOMMIT_def
        MEM_RELEASE_def)

subsection \<open>C5: Realloc when the allocation is refused\<close>

text \<open>
  C5 says that \<open>Realloc\<close> leaves the block as it was and returns 0 whenever the new
  allocation cannot be obtained. \<open>Realloc\<close> does not look at the status of its
  requests. Here the sample block is reallocated to one page at 0x50000 and the allocator
  refuses, leaving the base address it was passed as it is. No second request is made;
  the old region is released and the block is bound to 0x50000, which was never
  allocated, and 0x50000 is returned.
\<close>

theorem C5_realloc_adopts_refused_address:
  "status (respond refusing_in_place start (VirualAllocExT target 0x50000 0x1000 MEM_COMMIT 0x04))
     \<noteq> STATUS_SUCCESS
   \<and> \<not> NT_SUCCESS
        (status (respond refusing_in_place start
                   (VirualAllocExT target 0x50000 0x1000 MEM_COMMIT 0x04)))
   \<and> Realloc refusing_in_place held 0x1000 0x50000 0x04 start =
       Inr (0x50000,
            \<lparr>m_ptr = 0x50000, m_size = 0x1000, m_protection = 0x04, m_own = True,
              m_physical = False, m_memory = Some target\<rparr>,
            \<lparr>calls = [VirualAllocExT target 0x50000 0x1000 MEM_COMMIT 0x04,
                       MemoryFree target 0x10000 0 MEM_RELEASE],
             last_status = STATUS_SUCCESS\<rparr>)"
  by (simp add: Realloc_def Free_def invoke_def Let_def sample_defs STATUS_SUCCESS_def
        NT_SUCCESS_def)

subsection \<open>C6: Protect and the protection field\<close>

text \<open>
  C6 says that a successful \<open>Protect\<close> over the whole block stores the new protection
  in the block, and that one over a part of it does not. In the source \<open>Protect\<close>
  assigns no field at all: whatever the range and whatever the status, the block is left
  as it was, its protection field included.
\<close>

theorem C6_protect_keeps_fields_amended:
  assumes "Protect e b protection offset sz pOld w = Inr (st, b', w')"
  shows "b' = b \<and> m_protection b' = m_protection b"
  using assms
  by (auto simp: Protect_def invoke_def Let_def split: if_splits option.splits)

text \<open>C6, instance: the second page of the sample block is protected with 0x04.\<close>

theorem C6_witness:
  "Protect granting held 0x04 0x1000 0x1000 False start =
     Inr (STATUS_SUCCESS, held,
          \<lparr>calls = [MemoryProtect target 0x11000 0x1000 0x04 False],
           last_status = STATUS_SUCCESS\<rparr>)
   \<and> m_protection held = 0x40"
proof -
  have p: "Protect granting held 0x04 0x1000 0x1000 False start =
     Inr (STATUS_SUCCESS, held,
          \<lparr>calls = [MemoryProtect target 0x11000 0x1000 0x04 False],
           last_status = STATUS_SUCCESS\<rparr>)"
    by (simp add: Protect_def invoke_def Let_def sample_defs)
  from C6_protect_keeps_fields_amended [OF p] p show ?thesis
    by (simp add: held_def)
qed

text \<open>
  C6 fails for the whole block: the sample block, of protection 0x40, is protected with
  0x04 over its whole size (offset 0, size 0) and the call succeeds. The protection field
  is still 0x40.
\<close>

theorem C6_counterexample:
  "Protect granting held 0x04 0 0 False start =
     Inr (STATUS_SUCCESS, held,
          \<lparr>calls = [MemoryProtect target 0x10000 0x2000 0x04 False],
           last_status = STATUS_SUCCESS\<rparr>)
   \<and> m_size held = 0x2000
   \<and> m_protection held = 0x40
   \<and> m_protection held \<noteq> 0x04"
  by (simp add: Protect_def invoke_def Let_def sample_defs)

subsection \<open>C7: a free that the collaborator refuses\<close>




subsection \<open>C8: freeing the whole block twice\<close>

text \<open>
  C8 says that, for every block, the first successful \<open>Free(0)\<close> leaves address, size
  and protection 0 and that the second one calls no collaborator and returns success.
  This holds when the first call reaches the collaborator and is granted. On a block whose
  address is 0 already, \<open>Free(0)\<close> returns success without calling anybody and without
  touching the block, so a size and a protection that are not 0 stay as they are.
\<close>

theorem C8_full_free_twice_amended:
  "(Free e b 0 w = Inr (st, b1, w1) \<and> calls w1 = calls w @ [c]
      \<and> NT_SUCCESS (status (respond e w c))
    \<longrightarrow> st = STATUS_SUCCESS \<and> m_ptr b1 = 0 \<and> m_size b1 = 0 \<and> m_protection b1 = 0
        \<and> Free e b1 0 w1 = Inr (STATUS_SUCCESS, b1, w1))
   \<and> (m_ptr b = 0 \<longrightarrow> Free e b 0 w = Inr (STATUS_SUCCESS, b, w))"
proof (intro conjI impI)
  assume a: "Free e b 0 w = Inr (st, b1, w1) \<and> calls w1 = calls w @ [c]
      \<and> NT_SUCCESS (status (respond e w c))"
  then have "st = STATUS_SUCCESS \<and> b1 = b\<lparr>m_ptr := 0, m_size := 0, m_protection := 0\<rparr>"
    using Free_full_granted by blast
  then show "st = STATUS_SUCCESS" "m_ptr b1 = 0" "m_size b1 = 0" "m_protection b1 = 0"
    by simp_all
  then show "Free e b1 0 w1 = Inr (STATUS_SUCCESS, b1, w1)"
    by (simp add: Free_at_zero)
next
  assume "m_ptr b = 0"
  then show "Free e b 0 w = Inr (STATUS_SUCCESS, b, w)"
    by (rule Free_at_zero)
qed

text \<open>C8, instance: the sample block is fully freed twice.\<close>

theorem C8_witness:
  "Free granting held 0 start =
     Inr (STATUS_SUCCESS, held\<lparr>m_ptr := 0, m_size := 0, m_protection := 0\<rparr>,
          \<lparr>calls = [MemoryFree target 0x10000 0 MEM_RELEASE], last_status = STATUS_SUCCESS\<rparr>)
   \<and> NT_SUCCESS (status (respond granting start (MemoryFree target 0x10000 0 MEM_RELEASE)))
   \<and> Free granting (held\<lparr>m_ptr := 0, m_size := 0, m_protection := 0\<rparr>) 0
        \<lparr>calls = [MemoryFree target 0x10000 0 MEM_RELEASE], last_status = STATUS_SUCCESS\<rparr> =
      Inr (STATUS_SUCCESS, held\<lparr>m_ptr := 0, m_size := 0, m_protection := 0\<rparr>,
           \<lparr>calls = [MemoryFree target 0x10000 0 MEM_RELEASE], last_status = STATUS_SUCCESS\<rparr>)"
proof -
  let ?c = "MemoryFree target 0x10000 0 MEM_RELEASE"
  let ?b1 = "held\<lparr>m_ptr := 0, m_size := 0, m_protection := 0\<rparr>"
  let ?w1 = "\<lparr>calls = [?c], last_status = STATUS_SUCCESS\<rparr>"
  have f: "Free granting held 0 start = Inr (STATUS_SUCCESS, ?b1, ?w1)"
    by (simp add: Free_def invoke_def Let_def sample_defs)
  have c: "calls ?w1 = calls start @ [?c]"
    by (simp add: start_def)
  have n: "NT_SUCCESS (status (respond granting start ?c))"
    by (simp add: granting_def)
  from C8_full_free_twice_amended [of granting held start STATUS_SUCCESS ?b1 ?w1 ?c] f c n
  show ?thesis
    by simp
qed

text \<open>
  C8 fails on the block that a failed allocation returns: its address is 0, its size
  0x1000 and its protection 0x40. \<open>Free(0)\<close> returns success and the size and the
  protection are still not 0.
\<close>

theorem C8_counterexample:
  "fst (Allocate denying target 0x1000 0x20000 0x40 start) =
     \<lparr>m_ptr = 0, m_size = 0x1000, m_protection = 0x40, m_own = True, m_physical = False,
      m_memory = Some target\<rparr>
   \<and> Free granting (fst (Allocate denying target 0x1000 0x20000 0x40 start)) 0 start =
       Inr (STATUS_SUCCESS,
            \<lparr>m_ptr = 0, m_size = 0x1000, m_protection = 0x40, m_own = True,
             m_physical = False, m_memory = Some target\<rparr>,
            start)"
  by (simp add: Allocate_def Free_def invoke_def Let_def sample_defs STATUS_SUCCESS_def)

subsection \<open>C9: dispatch on the backing\<close>

text \<open>
  C9: \<open>Protect\<close> and \<open>Free\<close> on a physical block call the driver, with the process
  id, and never the accessor; on a virtual block they call the accessor and never the
  driver. \<open>Protect\<close> makes exactly one call. \<open>Free\<close> makes exactly one call on a
  block whose address is not 0 and none otherwise.
\<close>

theorem C9_backing_dispatch:
  assumes "m_memory b = Some mem"
  shows "(\<exists>st w1. Protect e b protection offset sz pOld w = Inr (st, b, w1)
            \<and> calls w1 = calls w @
                [if m_physical b
                 then DriverProtectMem (pid mem) (m_ptr b + offset)
                        (if sz = 0 then m_size b else sz) (CastProtection e protection (DEP mem))
                 else MemoryProtect mem (m_ptr b + offset)
                        (if sz = 0 then m_size b else sz) (CastProtection e protection (DEP mem))
                        pOld]
            \<and> list_all (\<lambda>c. is_driver_call c = m_physical b
                          \<and> is_accessor_call c = (\<not> m_physical b))
                 (drop (length (calls w)) (calls w1)))
     \<and> (\<exists>st b2 w2. Free e b fsz w = Inr (st, b2, w2)
            \<and> calls w2 = calls w @
                (if m_ptr b = 0 then []
                 else [if m_physical b
                       then DriverFreeMem (pid mem) (m_ptr b) (Align fsz 0x1000) MEM_RELEASE
                       else MemoryFree mem (m_ptr b) (Align fsz 0x1000)
                              (if Align fsz 0x1000 = 0 then MEM_RELEASE else MEM_DECOMMIT)])
            \<and> list_all (\<lambda>c. is_driver_call c = m_physical b
                          \<and> is_accessor_call c = (\<not> m_physical b))
                 (drop (length (calls w)) (calls w2)))"
proof (intro conjI)
  show "\<exists>st w1. Protect e b protection offset sz pOld w = Inr (st, b, w1)
            \<and> calls w1 = calls w @
                [if m_physical b
                 then DriverProtectMem (pid mem) (m_ptr b + offset)
                        (if sz = 0 then m_size b else sz) (CastProtection e protection (DEP mem))
                 else MemoryProtect mem (m_ptr b + offset)
                        (if sz = 0 then m_size b else sz) (CastProtection e protection (DEP mem))
                        pOld]
            \<and> list_all (\<lambda>c. is_driver_call c = m_physical b
                          \<and> is_accessor_call c = (\<not> m_physical b))
                 (drop (length (calls w)) (calls w1))"
    using assms
    by (simp add: Protect_def invoke_def Let_def is_driver_call_def is_accessor_call_def)
next
  show "\<exists>st b2 w2. Free e b fsz w = Inr (st, b2, w2)
            \<and> calls w2 = calls w @
                (if m_ptr b = 0 then []
                 else [if m_physical b
                       then DriverFreeMem (pid mem) (m_ptr b) (Align fsz 0x1000) MEM_RELEASE
                       else MemoryFree mem (m_ptr b) (Align fsz 0x1000)
                              (if Align fsz 0x1000 = 0 then MEM_RELEASE else MEM_DECOMMIT)])
            \<and> list_all (\<lambda>c. is_driver_call c = m_physical b
                          \<and> is_accessor_call c = (\<not> m_physical b))
                 (drop (length (calls w)) (calls w2))"
    using assms
    by (simp add: Free_def invoke_def Let_def is_driver_call_def is_accessor_call_def)
qed

text \<open>
  C9, instance: the physical sample block is protected from its second page on, and
  freed in full.
\<close>

theorem C9_witness:
  "m_memory held_physical = Some target \<and> m_physical held_physical
   \<and> Protect granting held_physical 0x04 0x1000 0 False start =
       Inr (STATUS_SUCCESS, held_physical,
            \<lparr>calls = [DriverProtectMem 0x4D2 0x11000 0x2000 0x04], last_status = STATUS_SUCCESS\<rparr>)
   \<and> Free granting held_physical 0 start =
       Inr (STATUS_SUCCESS, held_physical\<lparr>m_ptr := 0, m_size := 0, m_protection := 0\<rparr>,
            \<lparr>calls = [DriverFreeMem 0x4D2 0x10000 0 MEM_RELEASE], last_status = STATUS_SUCCESS\<rparr>)
   \<and> is_driver_call (DriverProtectMem 0x4D2 0x11000 0x2000 0x04)
   \<and> \<not> is_accessor_call (DriverProtectMem 0x4D2 0x11000 0x2000 0x04)"
proof -
  have m: "m_memory held_physical = Some target"
    by (simp add: held_physical_def held_def)
  have p: "Protect granting held_physical 0x04 0x1000 0 False start =
       Inr (STATUS_SUCCESS, held_physical,
            \<lparr>calls = [DriverProtectMem 0x4D2 0x11000 0x2000 0x04], last_status = STATUS_SUCCESS\<rparr>)"
    by (simp add: Protect_def invoke_def Let_def sample_defs)
  have f: "Free granting held_physical 0 start =
       Inr (STATUS_SUCCESS, held_physical\<lparr>m_ptr := 0, m_size := 0, m_protection := 0\<rparr>,
            \<lparr>calls = [DriverFreeMem 0x4D2 0x10000 0 MEM_RELEASE], last_status = STATUS_SUCCESS\<rparr>)"
    by (simp add: Free_def invoke_def Let_def sample_defs)
  from C9_backing_dispatch
         [OF m, where e = granting and protection = "0x04" and offset = "0x1000" and sz = 0
            and pOld = False and w = start and fsz = 0]
    m p f
  show ?thesis
    by (simp add: held_physical_def held_def is_driver_call_def is_accessor_call_def)
qed

subsection \<open>C10: Reset drops the outcome of the free\<close>

text \<open>
  C10: \<open>Reset\<close> leaves the block at address 0, size 0 and protection 0, not owning and
  without accessor, whatever the collaborator answers to the release. The block it leaves
  under collaborators \<open>e\<close> is the block it leaves under any other collaborators
  \<open>e'\<close>, so a refused release cannot be told from a granted one; and \<open>Reset\<close> hands
  back no status. The block must have an accessor if its address is not 0, since the
  release dereferences it.
\<close>

theorem C10_reset_discards_free_failure:
  assumes "m_ptr b = 0 \<or> m_memory b = Some mem"
  shows "\<exists>w1 w2.
           Reset e b w =
             Inr (\<lparr>m_ptr = 0, m_size = 0, m_protection = 0, m_own = False,
                   m_physical = m_physical b, m_memory = None\<rparr>, w1)
         \<and> Reset e' b w =
             Inr (\<lparr>m_ptr = 0, m_size = 0, m_protection = 0, m_own = False,
                   m_physical = m_physical b, m_memory = None\<rparr>, w2)"
proof -
  have r: "\<exists>w1. Reset x b w =
             Inr (\<lparr>m_ptr = 0, m_size = 0, m_protection = 0, m_own = False,
                   m_physical = m_physical b, m_memory = None\<rparr>, w1)" for x
  proof -
    from Free_returns [OF assms] obtain st b' w' where f: "Free x b 0 w = Inr (st, b', w')"
      by blast
    then obtain b1 where "Reset x b w = Inr (b1, w')"
      by (simp add: Reset_def)
    with Reset_cleared show ?thesis
      by blast
  qed
  from r [of e] r [of e'] show ?thesis
    by blast
qed

text \<open>
  C10, instance: the sample block is reset once with collaborators that refuse the
  release and once with collaborators that grant it.
\<close>

theorem C10_witness:
  "m_memory held = Some target
   \<and> \<not> NT_SUCCESS (status (respond denying start (MemoryFree target 0x10000 0 MEM_RELEASE)))
   \<and> Reset denying held start =
       Inr (\<lparr>m_ptr = 0, m_size = 0, m_protection = 0, m_own = False, m_physical = False,
             m_memory = None\<rparr>,
            \<lparr>calls = [MemoryFree target 0x10000 0 MEM_RELEASE], last_status = 0xC0000017\<rparr>)
   \<and> Reset granting held start =
       Inr (\<lparr>m_ptr = 0, m_size = 0, m_protection = 0, m_own = False, m_physical = False,
             m_memory = None\<rparr>,
            \<lparr>calls = [MemoryFree target 0x10000 0 MEM_RELEASE], last_status = STATUS_SUCCESS\<rparr>)"
proof -
  have m: "m_memory held = Some target"
    by (simp add: held_def)
  then have h: "m_ptr held = 0 \<or> m_memory held = Some target"
    by simp
  have n: "\<not> NT_SUCCESS (status (respond denying start (MemoryFree target 0x10000 0 MEM_RELEASE)))"
    by (simp add: denying_def deny_def NT_SUCCESS_def)
  have d: "snd (projr (Reset denying held start)) =
             \<lparr>calls = [MemoryFree target 0x10000 0 MEM_RELEASE], last_status = 0xC0000017\<rparr>"
    by (simp add: Reset_def Free_def invoke_def Let_def sample_defs NT_SUCCESS_def)
  have g: "snd (projr (Reset granting held start)) =
             \<lparr>calls = [MemoryFree target 0x10000 0 MEM_RELEASE], last_status = STATUS_SUCCESS\<rparr>"
    by (simp add: Reset_def Free_def invoke_def Let_def sample_defs)
  from C10_reset_discards_free_failure [OF h, where e = denying and w = start and e' = granting]
  obtain w1 w2
    where r1: "Reset denying held start =
             Inr (\<lparr>m_ptr = 0, m_size = 0, m_protection = 0, m_own = False,
                   m_physical = m_physical held, m_memory = None\<rparr>, w1)"
      and r2: "Reset granting held start =
             Inr (\<lparr>m_ptr = 0, m_size = 0, m_protection = 0, m_own = False,
                   m_physical = m_physical held, m_memory = None\<rparr>, w2)"
    by blast
  from r1 d have "w1 = \<lparr>calls = [MemoryFree target 0x10000 0 MEM_RELEASE],
                        last_status = 0xC0000017\<rparr>"
    by simp
  moreover from r2 g have "w2 = \<lparr>calls = [MemoryFree target 0x10000 0 MEM_RELEASE],
                        last_status = STATUS_SUCCESS\<rparr>"
    by simp
  moreover have "m_physical held = False"
    by (simp add: held_def)
  ultimately show ?thesis
    using m n r1 r2 by simp
qed

end
